theory Spec2Isabelle
  imports Complex_Main
begin

section \<open>The selection overlay of the designer's simulator\<close>

text \<open>
  A shallow embedding of \<^verbatim>\<open>packages/designer/src/simulator/selection.tsx\<close>.
  Each React component is a function from its props (and the values its hooks read) to the
  element tree it returns; \<^verbatim>\<open>return null\<close> is \<open>None\<close>. An event handler is the
  list of calls it makes, in order, on the event and on the workspace. Pixel quantities are
  JavaScript numbers, that is IEEE 754 double-precision values; a finite one is modelled as
  the real it denotes (a bounding rectangle measured from the DOM holds no NaN), so that a
  number is falsy exactly when it is \<open>0\<close> and \<open><\<close> is the order of the reals. The sum of
  two numbers is rounded to the nearest double, as \<^verbatim>\<open>+\<close> does.
\<close>

subsection \<open>JavaScript numbers\<close>

text \<open>Rounding to the nearest integer, a tie going to the even one.\<close>

definition round_even :: "real \<Rightarrow> int" where
  "round_even r =
     (let f = \<lfloor>r\<rfloor> in
      if r - of_int f < 1 / 2 then f
      else if 1 / 2 < r - of_int f then f + 1
      else if even f then f else f + 1)"

text \<open>
  Rounding a real to binary64, to nearest with ties to even: a number of binary exponent
  \<open>e\<close> (at least \<open>-1022\<close>, below which the numbers are subnormal) is rounded to a multiple of
  \<open>2 powi (e - 52)\<close>. A result of magnitude \<open>2 ^ 1024\<close> or more is an overflow; the value
  \<open>2 ^ 1024\<close>, above every finite double, stands for \<^verbatim>\<open>Infinity\<close>.
\<close>

definition round_double :: "real \<Rightarrow> real" where
  "round_double x =
     (if x = 0 then 0
      else
        (let e = max \<lfloor>log 2 \<bar>x\<bar>\<rfloor> (- 1022);
             q = 2 powi (e - 52);
             r = of_int (round_even (x / q)) * q
         in if 2 ^ 1024 \<le> \<bar>r\<bar> then sgn x * 2 ^ 1024 else r))"

text \<open>\<^verbatim>\<open>x + y\<close> on numbers: the exact sum, rounded.\<close>

definition js_add :: "real \<Rightarrow> real \<Rightarrow> real" where
  "js_add x y = round_double (x + y)"

subsection \<open>Data read from the workspace and the designer\<close>

record DOMRect =
  bounding_left :: real
  bounding_top :: real
  bounding_width :: real
  bounding_height :: real

text \<open>
  \<^verbatim>\<open>ISelectedItemData\<close>: the fields the file reads. An optional field that may be
  \<^verbatim>\<open>undefined\<close> is an \<open>option\<close>.
\<close>

datatype ISelectedItemData = ISelectedItemData
  (item_id: string)
  (name: string)
  (codeId: "string option")
  (filename: "string option")
  (bounding: "DOMRect option")
  (parents: "ISelectedItemData list option")

text \<open>\<^verbatim>\<open>childrenName\<close> of a prototype is one name or an array of names.\<close>

datatype children_name = ChildName string | ChildNames "string list"

record prototype =
  type' :: string
  title :: "string option"
  icon :: "string option"
  help' :: "string option"
  childrenName :: "children_name option"

record workspace =
  componentPrototypes :: "string \<rightharpoonup> prototype"
  activeViewFile :: "string option"
  selected :: "ISelectedItemData list"

record designer =
  viewport_width :: real

subsection \<open>Calls made by event handlers\<close>

datatype call =
    EffectAllowed string
  | DragSourceSet ISelectedItemData
  | SetDragImage string int int
  | DragSourceClear
  | Select ISelectedItemData
  | InsertToSelectedNode string

text \<open>The calls that go to the workspace (the others act on the drag event).\<close>

fun is_workspace_call :: "call \<Rightarrow> bool" where
  "is_workspace_call (EffectAllowed _) = False"
| "is_workspace_call (DragSourceSet _) = True"
| "is_workspace_call (SetDragImage _ _ _) = False"
| "is_workspace_call DragSourceClear = True"
| "is_workspace_call (Select _) = True"
| "is_workspace_call (InsertToSelectedNode _) = True"

text \<open>What a click on a rendered element does: its handler, when it has one.\<close>

definition click :: "call list option \<Rightarrow> call list" where
  "click h = (case h of None \<Rightarrow> [] | Some cs \<Rightarrow> cs)"

subsection \<open>JavaScript truthiness of strings\<close>

text \<open>\<^verbatim>\<open>a || b\<close> where \<open>b\<close> is a string.\<close>

definition or_else :: "string option \<Rightarrow> string \<Rightarrow> string" where
  "or_else a b = (case a of None \<Rightarrow> b | Some t \<Rightarrow> if t \<noteq> [] then t else b)"

subsection \<open>Element trees\<close>

datatype SelectionHelperAlignType = Top_right | Top_left | Inner_top_right

definition boundingOffset :: real where
  "boundingOffset = 100"

text \<open>
  The button \<^verbatim>\<open>SelectionHelper\<close> returns; \<open>as\<close> and \<open>onClick\<close> reach it through
  \<^verbatim>\<open>{...rest}\<close>.
\<close>

record ('i, 'l, 'c) Button =
  button_as :: "string option"
  button_onClick :: "call list option"
  button_icon :: "'i option"
  button_label :: "'l option"
  button_children :: "'c option"

definition SelectionHelper ::
  "'i option \<Rightarrow> 'l option \<Rightarrow> 'c option \<Rightarrow> string option \<Rightarrow> call list option \<Rightarrow> ('i, 'l, 'c) Button"
where
  "SelectionHelper icon_prop label_prop children rest_as rest_onClick =
     \<lparr>button_as = rest_as, button_onClick = rest_onClick,
      button_icon = icon_prop, button_label = label_prop, button_children = children\<rparr>"

text \<open>
  \<^verbatim>\<open>NameSelector\<close>: the name and, in a list, one keyed entry per ancestor.
\<close>

record NameSelectorView =
  selectionName :: "string option"
  ancestors :: "(string \<times> (unit, unit, string) Button) list"

definition noop :: "ISelectedItemData \<Rightarrow> call list" where
  "noop item = []"

text \<open>\<^verbatim>\<open>{ ...parent, parents: ps }\<close>\<close>

definition spread_parents :: "ISelectedItemData \<Rightarrow> ISelectedItemData list \<Rightarrow> ISelectedItemData" where
  "spread_parents parent ps =
     ISelectedItemData (item_id parent) (name parent) (codeId parent) (filename parent)
       (bounding parent) (Some ps)"

definition NameSelector ::
  "string option \<Rightarrow> ISelectedItemData list option \<Rightarrow> (ISelectedItemData \<Rightarrow> call list) option
   \<Rightarrow> NameSelectorView"
where
  "NameSelector label_prop parents_prop onSelect_prop =
     (let ps = (case parents_prop of None \<Rightarrow> [] | Some l \<Rightarrow> l);
          onSelect = (case onSelect_prop of None \<Rightarrow> noop | Some f \<Rightarrow> f)
      in \<lparr>selectionName = label_prop,
          ancestors =
            map (\<lambda>(index, parent).
                   (item_id parent,
                    SelectionHelper None None (Some (name parent)) (Some ''li'')
                      (Some (onSelect (spread_parents parent (drop (index + 1) ps))))))
              (enumerate 0 ps)\<rparr>)"

text \<open>\<^verbatim>\<open>IInsertedData\<close> and the dropdown that lists it.\<close>

record IInsertedData =
  inserted_name :: string
  inserted_label :: string
  inserted_icon :: "string option"
  inserted_description :: "string option"

datatype icon_view = IconFont string | Img string string

record InsertedItemView =
  item_icon :: icon_view
  item_label :: string
  item_description :: "string option"
  item_onClick :: "call list option"

text \<open>
  \<^verbatim>\<open>InsertedItem\<close> destructures \<open>label\<close>, \<open>icon\<close> and \<open>description\<close> only: the
  \<open>onClick\<close> it is given is not passed on to the box it returns.
\<close>

definition InsertedItem ::
  "string \<Rightarrow> string option \<Rightarrow> string option \<Rightarrow> call list \<Rightarrow> InsertedItemView"
where
  "InsertedItem label_prop icon_prop description onClick =
     (let icn = (case icon_prop of None \<Rightarrow> ''icon-placeholder'' | Some i \<Rightarrow> i)
      in \<lparr>item_icon = (if take 5 icn = ''icon-'' then IconFont icn else Img icn label_prop),
          item_label = label_prop,
          item_description = description,
          item_onClick = None\<rparr>)"

record 'c DropdownView =
  trigger :: "string list"
  dropdownRender :: "(string \<times> InsertedItemView) list"
  dropdown_children :: 'c

definition InsertedDropdown ::
  "IInsertedData list option \<Rightarrow> (string \<Rightarrow> call list) option \<Rightarrow> 'c \<Rightarrow> 'c DropdownView"
where
  "InsertedDropdown options_prop onSelect children =
     (let opts = (case options_prop of None \<Rightarrow> [] | Some l \<Rightarrow> l)
      in \<lparr>trigger = [''click''],
          dropdownRender =
            map (\<lambda>item.
                   (inserted_name item,
                    InsertedItem (inserted_label item) (inserted_icon item)
                      (inserted_description item)
                      (case onSelect of None \<Rightarrow> [] | Some f \<Rightarrow> f (inserted_name item))))
              opts,
          dropdown_children = children\<rparr>)"

text \<open>The elements of the \<open>actions\<close> array.\<close>

datatype action_prop = ActionName string | ActionElement string

datatype action_node = Widget string string | Element string | Null

text \<open>The inline style of the highlight box.\<close>

record CSSProperties =
  display :: string
  css_width :: real
  css_height :: real
  translate :: "real \<times> real"
  color_active :: string
  color_active_hover :: string

record HolderOutlined =
  draggable :: bool
  onDragStart :: "call list"
  onDragEnd :: "call list"

text \<open>
  The label of the toolbar's first button: the name selector and, for a node of another
  file, an info icon whose tooltip quotes the node's file name.
\<close>

record LabelView =
  nameSelector :: NameSelectorView
  otherFileInfo :: "string option option"

datatype plus_icon = PlusSquareOutlined

record SelectionHelpersView =
  data_align :: SelectionHelperAlignType
  helper :: "(HolderOutlined, LabelView, unit) Button"
  toolSet :: "action_node list"
  insertedDropdown :: "(plus_icon, unit, unit) Button DropdownView option"

record BoxView =
  data_selection_id :: string
  style :: "CSSProperties option"
  selectionHelpers :: "SelectionHelpersView option"

record SelectionBoxProps =
  showActions :: bool
  actions :: "action_node list"
  data :: ISelectedItemData

subsection \<open>SelectionBox\<close>

text \<open>
  \<^verbatim>\<open>insertedList\<close>: empty unless the prototype's \<open>childrenName\<close> is truthy (a
  non-empty string, or any array).
\<close>

definition insertedList :: "workspace \<Rightarrow> prototype option \<Rightarrow> IInsertedData list" where
  "insertedList ws proto_opt =
     (case proto_opt of
        None \<Rightarrow> []
      | Some p \<Rightarrow>
          (case childrenName p of
             None \<Rightarrow> []
           | Some cn \<Rightarrow>
               if (case cn of ChildName s \<Rightarrow> s \<noteq> [] | ChildNames _ \<Rightarrow> True) then
                 (let names = (case cn of ChildNames l \<Rightarrow> l | ChildName s \<Rightarrow> [s])
                  in map (\<lambda>child.
                            (let proto = componentPrototypes ws child
                             in \<lparr>inserted_name = child,
                                 inserted_label =
                                   or_else (case proto of None \<Rightarrow> None | Some q \<Rightarrow> title q) child,
                                 inserted_icon = (case proto of None \<Rightarrow> None | Some q \<Rightarrow> icon q),
                                 inserted_description =
                                   (case proto of None \<Rightarrow> None | Some q \<Rightarrow> help' q)\<rparr>))
                       names)
               else []))"

definition isPage :: "workspace \<Rightarrow> ISelectedItemData \<Rightarrow> bool" where
  "isPage ws d =
     (case componentPrototypes ws (name d) of None \<Rightarrow> False | Some p \<Rightarrow> type' p = ''page'')"

definition selectionHelpersAlign :: "designer \<Rightarrow> ISelectedItemData \<Rightarrow> SelectionHelperAlignType" where
  "selectionHelpersAlign ds d =
     (case bounding d of
        None \<Rightarrow> Top_right
      | Some b \<Rightarrow>
          if js_add (js_add (bounding_left b) (bounding_width b)) boundingOffset
               < viewport_width ds
          then Top_left
          else if bounding_top b < 20 then Inner_top_right
          else Top_right)"

definition isFromCurrentFile :: "workspace \<Rightarrow> ISelectedItemData \<Rightarrow> bool" where
  "isFromCurrentFile ws d = (filename d = activeViewFile ws)"

definition boxStyle :: "workspace \<Rightarrow> ISelectedItemData \<Rightarrow> CSSProperties option" where
  "boxStyle ws d =
     (case bounding d of
        None \<Rightarrow> None
      | Some b \<Rightarrow>
          Some \<lparr>display = ''block'',
                css_width = bounding_width b,
                css_height = bounding_height b,
                translate = (bounding_left b, bounding_top b),
                color_active =
                  (if isFromCurrentFile ws d then ''var(--tango-colors-brand)''
                   else ''var(--tango-colors-gray-60)''),
                color_active_hover =
                  (if isFromCurrentFile ws d then ''var(--tango-colors-primary-50)''
                   else ''var(--tango-colors-gray-50)'')\<rparr>)"

text \<open>
  \<open>ghost\<close> is the element \<^verbatim>\<open>getDragGhostElement()\<close> returns.
\<close>

definition SelectionBox ::
  "workspace \<Rightarrow> designer \<Rightarrow> string \<Rightarrow> SelectionBoxProps \<Rightarrow> BoxView option"
where
  "SelectionBox ws ds ghost props =
     (let d = data props in
      case bounding d of
        None \<Rightarrow> None
      | Some b \<Rightarrow>
          if bounding_height b = 0 \<and> bounding_width b = 0 then None
          else
            (let proto = componentPrototypes ws (name d);
                 ins = insertedList ws proto
             in Some
                 \<lparr>data_selection_id = item_id d,
                  style = boxStyle ws d,
                  selectionHelpers =
                    (if showActions props then
                       Some
                         \<lparr>data_align = selectionHelpersAlign ds d,
                          helper =
                            SelectionHelper
                              (if \<not> isPage ws d then
                                 Some \<lparr>draggable = True,
                                       onDragStart =
                                         [EffectAllowed ''move'', DragSourceSet d,
                                          SetDragImage ghost 0 0],
                                       onDragEnd = [DragSourceClear]\<rparr>
                               else None)
                              (Some
                                 \<lparr>nameSelector =
                                    NameSelector (Some (or_else (codeId d) (name d))) (parents d)
                                      (Some (\<lambda>item. [Select item])),
                                  otherFileInfo =
                                    (if \<not> isFromCurrentFile ws d then Some (filename d)
                                     else None)\<rparr>)
                              None None None,
                          toolSet = (if \<not> isPage ws d then actions props else []),
                          insertedDropdown =
                            (if length ins > 0 then
                               Some
                                 (InsertedDropdown (Some ins)
                                    (Some (\<lambda>nm. [InsertToSelectedNode nm]))
                                    (SelectionHelper (Some PlusSquareOutlined) None None None None))
                             else None)\<rparr>
                     else None)\<rparr>))"

subsection \<open>SelectionTools\<close>

text \<open>
  \<open>getWidget\<close> is the widget registry. The component returns one keyed
  \<^verbatim>\<open>SelectionBox\<close> element per selected item.
\<close>

definition toolActions :: "(string \<rightharpoonup> string) \<Rightarrow> action_prop list option \<Rightarrow> action_node list" where
  "toolActions getWidget actions_prop =
     map (\<lambda>item.
            case item of
              ActionName s \<Rightarrow>
                (case getWidget (''selectionMenu'' @ ''.'' @ s) of
                   Some widget \<Rightarrow> Widget widget s
                 | None \<Rightarrow> Null)
            | ActionElement e \<Rightarrow> Element e)
       (case actions_prop of
          None \<Rightarrow> [ActionName ''viewSource'', ActionName ''copyNode'', ActionName ''deleteNode'']
        | Some l \<Rightarrow> l)"

definition SelectionTools ::
  "(string \<rightharpoonup> string) \<Rightarrow> workspace \<Rightarrow> action_prop list option \<Rightarrow> (string \<times> SelectionBoxProps) list"
where
  "SelectionTools getWidget ws actions_prop =
     (let acts = toolActions getWidget actions_prop
      in map (\<lambda>item.
                (item_id item,
                 \<lparr>showActions = (length (selected ws) = 1), actions = acts, data = item\<rparr>))
           (selected ws))"

text \<open>What reaches the screen: every \<^verbatim>\<open>SelectionBox\<close> element rendered in turn.\<close>

definition render_SelectionTools ::
  "(string \<rightharpoonup> string) \<Rightarrow> workspace \<Rightarrow> designer \<Rightarrow> string \<Rightarrow> action_prop list option
   \<Rightarrow> (string \<times> BoxView option) list"
where
  "render_SelectionTools getWidget ws ds ghost actions_prop =
     map (\<lambda>(k, props). (k, SelectionBox ws ds ghost props))
       (SelectionTools getWidget ws actions_prop)"

subsection \<open>The rules of the specification\<close>

text \<open>
  The anchor rule in the specification's words: with offset 100 and threshold 20, top-left if
  \<open>left + width + 100 < viewport width\<close>, else inner-top-right if \<open>top < 20\<close>, else
  top-right.
\<close>

definition anchor_rule :: "real \<Rightarrow> real \<Rightarrow> real \<Rightarrow> real \<Rightarrow> SelectionHelperAlignType" where
  "anchor_rule left width top_px viewport =
     (if left + width + 100 < viewport then Top_left
      else if top_px < 20 then Inner_top_right
      else Top_right)"

text \<open>
  The same rule with the sum taken in double precision, from left to right, each addition
  rounded to the nearest double.
\<close>

definition anchor_rule_double :: "real \<Rightarrow> real \<Rightarrow> real \<Rightarrow> real \<Rightarrow> SelectionHelperAlignType" where
  "anchor_rule_double left width top_px viewport =
     (if js_add (js_add left width) 100 < viewport then Top_left
      else if top_px < 20 then Inner_top_right
      else Top_right)"

text \<open>
  An item has a size when its bounding geometry is present and its width and height are not
  both zero.
\<close>

definition has_size :: "ISelectedItemData \<Rightarrow> bool" where
  "has_size d =
     (case bounding d of
        None \<Rightarrow> False
      | Some b \<Rightarrow> \<not> (bounding_width b = 0 \<and> bounding_height b = 0))"

subsection \<open>Sample inputs\<close>

definition rect :: "real \<Rightarrow> real \<Rightarrow> real \<Rightarrow> real \<Rightarrow> DOMRect" where
  "rect l t w h =
     \<lparr>bounding_left = l, bounding_top = t, bounding_width = w, bounding_height = h\<rparr>"

definition sample_file :: string where
  "sample_file = ''/src/pages/index.js''"

definition sample_page :: ISelectedItemData where
  "sample_page =
     ISelectedItemData ''p0'' ''Page'' None (Some sample_file) (Some (rect 0 0 1200 800)) (Some [])"

definition sample_section :: ISelectedItemData where
  "sample_section =
     ISelectedItemData ''s1'' ''Section'' None (Some sample_file) (Some (rect 0 40 1200 300))
       (Some [sample_page])"

definition sample_row :: ISelectedItemData where
  "sample_row =
     ISelectedItemData ''r2'' ''Row'' (Some ''row1'') (Some sample_file)
       (Some (rect 20 60 300 120)) (Some [sample_section, sample_page])"

definition sample_flat :: ISelectedItemData where
  "sample_flat =
     ISelectedItemData ''f3'' ''Divider'' None (Some ''/src/blocks/footer.js'')
       (Some (rect 20 200 0 16)) None"

definition sample_empty :: ISelectedItemData where
  "sample_empty =
     ISelectedItemData ''e4'' ''Fragment'' None (Some sample_file) (Some (rect 20 200 0 0)) None"

definition sample_detached :: ISelectedItemData where
  "sample_detached = ISelectedItemData ''d5'' ''Modal'' None (Some sample_file) None None"

definition sample_prototypes :: "string \<rightharpoonup> prototype" where
  "sample_prototypes =
     [''Page'' \<mapsto>
        \<lparr>type' = ''page'', title = Some ''Page'', icon = None, help' = None,
         childrenName = None\<rparr>,
      ''Row'' \<mapsto>
        \<lparr>type' = ''element'', title = Some ''Row'', icon = Some ''icon-row'', help' = None,
         childrenName = Some (ChildName ''Col'')\<rparr>,
      ''Col'' \<mapsto>
        \<lparr>type' = ''element'', title = Some ''Column'', icon = Some ''icon-col'',
         help' = Some ''one column of a row'', childrenName = None\<rparr>]"

definition sample_workspace :: "ISelectedItemData list \<Rightarrow> workspace" where
  "sample_workspace sel =
     \<lparr>componentPrototypes = sample_prototypes, activeViewFile = Some sample_file,
      selected = sel\<rparr>"

definition sample_designer :: designer where
  "sample_designer = \<lparr>viewport_width = 1200\<rparr>"

text \<open>
  A row whose left edge is off by \<open>- 2 powi (- 47)\<close>, about \<open>-7.1e-15\<close>, in a viewport
  1024 wide.
\<close>

definition sample_edge :: ISelectedItemData where
  "sample_edge =
     ISelectedItemData ''g6'' ''Row'' None (Some sample_file)
       (Some (rect (- (1 / 2 ^ 47)) 40 924 100)) None"

definition narrow_designer :: designer where
  "narrow_designer = \<lparr>viewport_width = 1024\<rparr>"

definition sample_props :: "ISelectedItemData \<Rightarrow> SelectionBoxProps" where
  "sample_props d = \<lparr>showActions = True, actions = [Element ''copy''], data = d\<rparr>"

section \<open>Properties\<close>

subsection \<open>What SelectionBox returns\<close>

lemmas sample_defs = rect_def sample_file_def sample_page_def sample_section_def sample_row_def
  sample_flat_def sample_empty_def sample_detached_def sample_prototypes_def sample_workspace_def
  sample_designer_def sample_props_def sample_edge_def narrow_designer_def

lemma SelectionBox_None_iff:
  "SelectionBox ws ds ghost props = None \<longleftrightarrow> \<not> has_size (data props)"
  by (auto simp: SelectionBox_def has_size_def Let_def split: option.splits)

lemma SelectionBox_Some:
  assumes "SelectionBox ws ds ghost props = Some v"
  shows "has_size (data props)"
    and "data_selection_id v = item_id (data props)"
    and "style v = boxStyle ws (data props)"
    and "showActions props \<Longrightarrow> \<exists>t. selectionHelpers v = Some t"
    and "\<not> showActions props \<Longrightarrow> selectionHelpers v = None"
  using assms
  by (auto simp: SelectionBox_def has_size_def Let_def split: option.splits if_splits)

lemma selectionHelpers_Some:
  assumes "SelectionBox ws ds ghost props = Some v" and "selectionHelpers v = Some t"
  shows "showActions props"
    and "data_align t = selectionHelpersAlign ds (data props)"
    and "button_icon (helper t) =
           (if isPage ws (data props) then None
            else Some \<lparr>draggable = True,
                       onDragStart = [EffectAllowed ''move'', DragSourceSet (data props),
                                      SetDragImage ghost 0 0],
                       onDragEnd = [DragSourceClear]\<rparr>)"
    and "button_label (helper t) =
           Some \<lparr>nameSelector =
                   NameSelector (Some (or_else (codeId (data props)) (name (data props))))
                     (parents (data props)) (Some (\<lambda>item. [Select item])),
                 otherFileInfo =
                   (if isFromCurrentFile ws (data props) then None
                    else Some (filename (data props)))\<rparr>"
    and "toolSet t = (if isPage ws (data props) then [] else actions props)"
    and "insertedDropdown t =
           (let ins = insertedList ws (componentPrototypes ws (name (data props)))
            in if ins = [] then None
               else Some (InsertedDropdown (Some ins) (Some (\<lambda>nm. [InsertToSelectedNode nm]))
                      (SelectionHelper (Some PlusSquareOutlined) None None None None)))"
  using assms
  by (auto simp: SelectionBox_def SelectionHelper_def Let_def split: option.splits if_splits)


lemma toolbar_rendered:
  assumes "has_size (data props)" and "showActions props"
  shows "\<exists>v t. SelectionBox ws ds ghost props = Some v \<and> selectionHelpers v = Some t"
proof -
  from assms(1) obtain v where v: "SelectionBox ws ds ghost props = Some v"
    using SelectionBox_None_iff [of ws ds ghost props] by (cases "SelectionBox ws ds ghost props") auto
  from SelectionBox_Some(4) [OF v assms(2)] v show ?thesis by blast
qed

lemma NameSelector_entry:
  assumes "i < length ps"
  shows "ancestors (NameSelector l (Some ps) (Some f)) ! i =
           (item_id (ps ! i),
            SelectionHelper None None (Some (name (ps ! i))) (Some ''li'')
              (Some (f (spread_parents (ps ! i) (drop (i + 1) ps)))))"
  using assms by (simp add: NameSelector_def nth_enumerate_eq)

lemma NameSelector_length: "length (ancestors (NameSelector l (Some ps) f)) = length ps"
  by (simp add: NameSelector_def)

subsection \<open>Sums of numbers\<close>

lemma floor_log2_eq:
  assumes "2 powi e \<le> \<bar>x\<bar>" and "\<bar>x\<bar> < 2 powi (e + 1)"
  shows "\<lfloor>log 2 \<bar>x\<bar>\<rfloor> = e"
proof -
  have pos: "0 < \<bar>x\<bar>"
    using assms(1) by (smt (verit) zero_less_power_int)
  have a: "(2::real) powr real_of_int e = 2 powi e"
    by (simp add: powr_real_of_int')
  have b: "(2::real) powr (real_of_int e + 1) = 2 powi (e + 1)"
    using powr_real_of_int' [of "2::real" "e + 1"] by simp
  show ?thesis
    using assms pos by (simp add: floor_log_eq_powr_iff a b)
qed

lemma round_even_of_int: "round_even (of_int k) = k"
  by (simp add: round_even_def)

text \<open>
  The rounding of a number of binary exponent \<open>e\<close>, for \<open>e\<close> from \<open>-1022\<close> to \<open>52\<close>, where
  the multiples of \<open>2 powi (e - 52)\<close> are the \<open>k / 2 ^ n\<close> with \<open>n = 52 - e\<close>.
\<close>

lemma round_double_eval:
  assumes "2 powi e \<le> \<bar>x\<bar>" and "\<bar>x\<bar> < 2 powi (e + 1)" and "- 1022 \<le> e" and "e \<le> 52"
    and "n = nat (52 - e)"
    and "\<bar>of_int (round_even (x * 2 ^ n)) / 2 ^ n\<bar> < (2::real) ^ 1024"
  shows "round_double x = of_int (round_even (x * 2 ^ n)) / 2 ^ n"
proof -
  have x: "x \<noteq> 0"
    using assms(1) by (smt (verit) zero_less_power_int)
  have e: "max \<lfloor>log 2 \<bar>x\<bar>\<rfloor> (- 1022) = e"
    using floor_log2_eq [OF assms(1,2)] assms(3) by simp
  have q: "(2::real) powi (e - 52) = 1 / 2 ^ n"
    using assms(4,5) by (simp add: power_int_def field_simps)
  show ?thesis
    using x assms(6) by (simp add: round_double_def e q Let_def)
qed

text \<open>An integer below \<open>2 ^ 53\<close> in magnitude is a double: sums of such integers are exact.\<close>

lemma round_double_of_int:
  assumes "\<bar>k\<bar> < 2 ^ 53"
  shows "round_double (of_int k) = of_int k"
proof (cases "k = 0")
  case True
  then show ?thesis by (simp add: round_double_def)
next
  case False
  define e where "e = \<lfloor>log 2 \<bar>real_of_int k\<bar>\<rfloor>"
  have pos: "0 < \<bar>real_of_int k\<bar>" using False by simp
  from e_def pos have lo: "2 powr real_of_int e \<le> \<bar>real_of_int k\<bar>"
    and hi: "\<bar>real_of_int k\<bar> < 2 powr (real_of_int e + 1)"
    using floor_log_eq_powr_iff [of "\<bar>real_of_int k\<bar>" 2 e] by simp_all
  have "1 \<le> \<bar>k\<bar>" using False by arith
  then have "real_of_int 1 \<le> real_of_int \<bar>k\<bar>" by (simp only: of_int_le_iff)
  then have "1 \<le> \<bar>real_of_int k\<bar>" by simp
  with hi have "(2::real) powr 0 < 2 powr (real_of_int e + 1)" by simp
  from powr_less_cancel [OF this] have e0: "0 \<le> e" by simp
  have "real_of_int \<bar>k\<bar> < real_of_int (2 ^ 53)"
    using assms by (simp only: of_int_less_iff)
  then have k53: "\<bar>real_of_int k\<bar> < 2 ^ 53" by simp
  with lo have "(2::real) powr real_of_int e < 2 powr 53" by simp
  from powr_less_cancel [OF this] have e52: "e \<le> 52" by simp
  define n where "n = nat (52 - e)"
  have lo': "2 powi e \<le> \<bar>real_of_int k\<bar>" using lo by (simp add: powr_real_of_int')
  have hi': "\<bar>real_of_int k\<bar> < 2 powi (e + 1)"
    using hi powr_real_of_int' [of "2::real" "e + 1"] by simp
  have r: "real_of_int k * 2 ^ n = of_int (k * 2 ^ n)" by simp
  have "\<bar>real_of_int k\<bar> < 2 ^ 1024"
    using k53 by (rule less_trans) simp
  then have b: "\<bar>real_of_int (round_even (real_of_int k * 2 ^ n)) / 2 ^ n\<bar> < 2 ^ 1024"
    by (simp only: r round_even_of_int) simp
  from e0 have "- 1022 \<le> e" by simp
  from round_double_eval [OF lo' hi' this e52 n_def b]
  have "round_double (of_int k) = of_int (round_even (of_int k * 2 ^ n)) / 2 ^ n" .
  then show ?thesis
    by (simp only: r round_even_of_int) simp
qed

lemma js_add_of_int:
  assumes "\<bar>a + b\<bar> < 2 ^ 53"
  shows "js_add (of_int a) (of_int b) = of_int (a + b)"
  using round_double_of_int [OF assms] by (simp add: js_add_def)

subsection \<open>The early returns\<close>

text \<open>
  C1. SelectionBox renders nothing when the item's bounding geometry is absent, or when both
  the bounding width and the bounding height are zero: no highlight box is rendered for an
  item of width 0 and height 0.
\<close>

theorem SelectionBox_no_render:
  "bounding (data props) = None \<or>
   (\<exists>b. bounding (data props) = Some b \<and> bounding_width b = 0 \<and> bounding_height b = 0)
   \<Longrightarrow> SelectionBox ws ds ghost props = None"
  by (auto simp: SelectionBox_def Let_def)

theorem SelectionBox_no_render_witness:
  "(\<exists>b. bounding (data (sample_props sample_empty)) = Some b \<and> bounding_width b = 0 \<and>
        bounding_height b = 0) \<and>
   SelectionBox (sample_workspace [sample_empty]) sample_designer ''ghost''
     (sample_props sample_empty) = None"
proof -
  have h: "\<exists>b. bounding (data (sample_props sample_empty)) = Some b \<and> bounding_width b = 0 \<and>
             bounding_height b = 0"
    by (simp add: sample_defs)
  then have "bounding (data (sample_props sample_empty)) = None \<or>
     (\<exists>b. bounding (data (sample_props sample_empty)) = Some b \<and> bounding_width b = 0 \<and>
          bounding_height b = 0)" ..
  from SelectionBox_no_render [OF this] h show ?thesis by blast
qed

subsection \<open>The anchor of the toolbar\<close>

text \<open>
  Where no addition rounds, as for integer pixel values, the rule in double precision is the
  rule of the specification.
\<close>

lemma anchor_rule_double_exact:
  assumes "js_add left width = left + width"
    and "js_add (left + width) 100 = left + width + 100"
  shows "anchor_rule_double left width top_px viewport = anchor_rule left width top_px viewport"
  using assms by (simp add: anchor_rule_double_def anchor_rule_def)

lemma anchor_rule_double_of_int:
  assumes "\<bar>l + w\<bar> < 2 ^ 53" and "\<bar>l + w + 100\<bar> < 2 ^ 53"
  shows "anchor_rule_double (of_int l) (of_int w) top_px viewport =
           anchor_rule (of_int l) (of_int w) top_px viewport"
proof (rule anchor_rule_double_exact)
  show "js_add (real_of_int l) (real_of_int w) = real_of_int l + real_of_int w"
    using js_add_of_int [OF assms(1)] by simp
  show "js_add (real_of_int l + real_of_int w) 100 = real_of_int l + real_of_int w + 100"
    using js_add_of_int [of "l + w" 100] assms(2) by simp
qed

text \<open>The two sums of the row at the edge: the first rounds to 924, the second is 1024.\<close>

lemma edge_sums:
  "js_add (- (1 / 2 ^ 47)) 924 = 924" "js_add 924 100 = 1024"
proof -
  show "js_add (- (1 / 2 ^ 47)) 924 = 924"
    unfolding js_add_def
    by (subst round_double_eval [where e = 9 and n = 43]) (simp_all add: round_even_def Let_def)
  show "js_add 924 100 = 1024"
    using js_add_of_int [of 924 100] by simp
qed

text \<open>
  The row at the edge, selected alone: its left, width and offset add up to less than the
  viewport width, so the rule of the specification gives top-left; the program's sum is
  1024, not below the viewport width, and the toolbar is anchored top-right.
\<close>

theorem anchor_exact_sum_counterexample:
  "bounding sample_edge = Some (rect (- (1 / 2 ^ 47)) 40 924 100) \<and>
   - (1 / 2 ^ 47) + 924 + 100 < viewport_width narrow_designer \<and>
   anchor_rule (- (1 / 2 ^ 47)) 924 40 (viewport_width narrow_designer) = Top_left \<and>
   map_option data_align
     (Option.bind
        (SelectionBox (sample_workspace [sample_edge]) narrow_designer ''ghost''
           (sample_props sample_edge))
        selectionHelpers) = Some Top_right"
  by (simp add: SelectionBox_def selectionHelpersAlign_def boundingOffset_def anchor_rule_def
      edge_sums edge_sums(1) [simplified] Let_def sample_defs)

text \<open>
  C2 (amended). For an item with bounding geometry the anchor computed by SelectionBox, and
  carried by every toolbar it renders, is the three-branch rule applied to the item's left,
  width and top and to the viewport width, with offset 100 and threshold 20, the sum
  \<open>left + width + 100\<close> being taken in double precision, each addition rounded: top-left if
  that sum is below the viewport width, else inner-top-right if \<open>top < 20\<close>, else top-right.
\<close>

theorem anchor_three_branch:
  assumes "bounding (data props) = Some b"
  shows "selectionHelpersAlign ds (data props) =
           anchor_rule_double (bounding_left b) (bounding_width b) (bounding_top b)
             (viewport_width ds) \<and>
         (\<forall>v t. SelectionBox ws ds ghost props = Some v \<longrightarrow> selectionHelpers v = Some t \<longrightarrow>
            data_align t =
              anchor_rule_double (bounding_left b) (bounding_width b) (bounding_top b)
                (viewport_width ds))"
  using assms
  by (auto simp: selectionHelpers_Some(2) selectionHelpersAlign_def anchor_rule_double_def
      boundingOffset_def)

theorem anchor_three_branch_witness:
  "bounding (data (sample_props sample_row)) = Some (rect 20 60 300 120) \<and>
   (\<exists>v t. SelectionBox (sample_workspace [sample_row]) sample_designer ''ghost''
            (sample_props sample_row) = Some v \<and>
          selectionHelpers v = Some t \<and> data_align t = Top_left)"
proof -
  let ?P = "sample_props sample_row"
  have b: "bounding (data ?P) = Some (rect 20 60 300 120)"
    by (simp add: sample_defs)
  have "has_size (data ?P)" and "showActions ?P"
    by (simp_all add: has_size_def sample_defs)
  then obtain v t
    where v: "SelectionBox (sample_workspace [sample_row]) sample_designer ''ghost'' ?P = Some v"
      and t: "selectionHelpers v = Some t"
    using toolbar_rendered by blast
  from anchor_three_branch [OF b, of sample_designer "sample_workspace [sample_row]" "''ghost''"] v t
  have "data_align t = anchor_rule_double 20 300 60 1200"
    by (simp add: rect_def sample_designer_def)
  moreover have "js_add 20 300 = 320" and "js_add 320 100 = 420"
    using js_add_of_int [of 20 300] js_add_of_int [of 320 100] by simp_all
  ultimately have "data_align t = Top_left"
    by (simp add: anchor_rule_double_def)
  with b v t show ?thesis by blast
qed

subsection \<open>One box per selected item\<close>

text \<open>
  A selection of exactly one member whose item has no bounding geometry: SelectionTools
  returns its one SelectionBox element, which renders nothing, so no toolbar control reaches
  the screen.
\<close>

theorem one_member_no_toolbar_counterexample:
  "length (selected (sample_workspace [sample_detached])) = 1 \<and>
   render_SelectionTools Map.empty (sample_workspace [sample_detached]) sample_designer ''ghost''
     None = [(''d5'', None)]"
  by (simp add: render_SelectionTools_def SelectionTools_def SelectionBox_def sample_defs)

text \<open>
  C3 (amended). SelectionTools returns one SelectionBox element per item of the selection, in
  order, keyed by the item's identifier and carrying the item as its data; showActions is
  true exactly when the selection has exactly one member; and the toolbar of an item is
  rendered if and only if the selection has exactly one member and the item has a size
  (bounding geometry present, width and height not both zero).
\<close>

theorem SelectionTools_boxes:
  "length (SelectionTools gw ws ap) = length (selected ws) \<and>
   length (render_SelectionTools gw ws ds ghost ap) = length (selected ws) \<and>
   (\<forall>i < length (selected ws).
      fst (SelectionTools gw ws ap ! i) = item_id (selected ws ! i) \<and>
      data (snd (SelectionTools gw ws ap ! i)) = selected ws ! i \<and>
      showActions (snd (SelectionTools gw ws ap ! i)) = (length (selected ws) = 1) \<and>
      render_SelectionTools gw ws ds ghost ap ! i =
        (item_id (selected ws ! i), SelectionBox ws ds ghost (snd (SelectionTools gw ws ap ! i))) \<and>
      ((\<exists>v t. snd (render_SelectionTools gw ws ds ghost ap ! i) = Some v \<and>
              selectionHelpers v = Some t)
       \<longleftrightarrow> length (selected ws) = 1 \<and> has_size (selected ws ! i)))"
proof -
  have len: "length (SelectionTools gw ws ap) = length (selected ws)"
    by (simp add: SelectionTools_def)
  have rlen: "length (render_SelectionTools gw ws ds ghost ap) = length (selected ws)"
    by (simp add: render_SelectionTools_def len)
  {
    fix i assume i: "i < length (selected ws)"
    let ?p = "snd (SelectionTools gw ws ap ! i)"
    have el: "SelectionTools gw ws ap ! i =
                (item_id (selected ws ! i),
                 \<lparr>showActions = (length (selected ws) = 1),
                  actions = toolActions gw ap, data = selected ws ! i\<rparr>)"
      using i by (simp add: SelectionTools_def)
    have r: "render_SelectionTools gw ws ds ghost ap ! i =
               (item_id (selected ws ! i), SelectionBox ws ds ghost ?p)"
      using i len by (simp add: render_SelectionTools_def el)
    have d: "data ?p = selected ws ! i" and sa: "showActions ?p = (length (selected ws) = 1)"
      by (simp_all add: el)
    have "(\<exists>v t. SelectionBox ws ds ghost ?p = Some v \<and> selectionHelpers v = Some t)
            \<longleftrightarrow> length (selected ws) = 1 \<and> has_size (selected ws ! i)"
    proof
      assume "\<exists>v t. SelectionBox ws ds ghost ?p = Some v \<and> selectionHelpers v = Some t"
      then obtain v t where v: "SelectionBox ws ds ghost ?p = Some v"
        and t: "selectionHelpers v = Some t" by blast
      from SelectionBox_Some(1) [OF v] selectionHelpers_Some(1) [OF v t] d sa
      show "length (selected ws) = 1 \<and> has_size (selected ws ! i)" by simp
    next
      assume "length (selected ws) = 1 \<and> has_size (selected ws ! i)"
      with d sa have "has_size (data ?p)" and "showActions ?p" by simp_all
      then show "\<exists>v t. SelectionBox ws ds ghost ?p = Some v \<and> selectionHelpers v = Some t"
        by (rule toolbar_rendered)
    qed
    with el r have
      "fst (SelectionTools gw ws ap ! i) = item_id (selected ws ! i) \<and>
       data ?p = selected ws ! i \<and>
       showActions ?p = (length (selected ws) = 1) \<and>
       render_SelectionTools gw ws ds ghost ap ! i =
         (item_id (selected ws ! i), SelectionBox ws ds ghost ?p) \<and>
       ((\<exists>v t. snd (render_SelectionTools gw ws ds ghost ap ! i) = Some v \<and>
               selectionHelpers v = Some t)
        \<longleftrightarrow> length (selected ws) = 1 \<and> has_size (selected ws ! i))"
      by simp
  }
  with len rlen show ?thesis by blast
qed

theorem SelectionTools_boxes_witness:
  "(0::nat) < length (selected (sample_workspace [sample_row])) \<and>
   fst (SelectionTools Map.empty (sample_workspace [sample_row]) None ! 0) = ''r2'' \<and>
   showActions (snd (SelectionTools Map.empty (sample_workspace [sample_row]) None ! 0)) \<and>
   (\<exists>v t. snd (render_SelectionTools Map.empty (sample_workspace [sample_row]) sample_designer
                 ''ghost'' None ! 0) = Some v \<and> selectionHelpers v = Some t)"
proof -
  let ?ws = "sample_workspace [sample_row]"
  have i: "(0::nat) < length (selected ?ws)" by (simp add: sample_workspace_def)
  have s: "length (selected ?ws) = 1 \<and> has_size (selected ?ws ! 0)"
    by (simp add: has_size_def sample_defs)
  have k: "item_id (selected ?ws ! 0) = ''r2''"
    by (simp add: sample_defs)
  from SelectionTools_boxes [of Map.empty ?ws None sample_designer "''ghost''"] i s k
  show ?thesis by fastforce
qed

subsection \<open>The breadcrumb of ancestors\<close>

text \<open>
  C4. For every ancestor list and every index \<open>i\<close> in it, the breadcrumb entry of the
  ancestor at index \<open>i\<close> is keyed by that ancestor's identifier, and a click on it calls the
  selection callback with that ancestor's data whose parents field is the ancestor list after
  index \<open>i\<close> (\<^verbatim>\<open>parents.slice(i + 1)\<close>); in the toolbar SelectionBox renders, that call
  is workspace.selectSource.select.
\<close>

theorem breadcrumb_click:
  assumes "i < length ps"
  shows "length (ancestors (NameSelector l (Some ps) (Some f))) = length ps \<and>
         fst (ancestors (NameSelector l (Some ps) (Some f)) ! i) = item_id (ps ! i) \<and>
         click (button_onClick (snd (ancestors (NameSelector l (Some ps) (Some f)) ! i))) =
           f (spread_parents (ps ! i) (drop (i + 1) ps)) \<and>
         parents (spread_parents (ps ! i) (drop (i + 1) ps)) = Some (drop (i + 1) ps) \<and>
         (\<forall>v t lb. SelectionBox ws ds ghost props = Some v \<longrightarrow> selectionHelpers v = Some t \<longrightarrow>
            button_label (helper t) = Some lb \<longrightarrow> parents (data props) = Some ps \<longrightarrow>
            click (button_onClick (snd (ancestors (nameSelector lb) ! i))) =
              [Select (spread_parents (ps ! i) (drop (i + 1) ps))])"
proof -
  have c: "click (button_onClick (snd (ancestors (NameSelector l (Some ps) (Some g)) ! i))) =
             g (spread_parents (ps ! i) (drop (i + 1) ps))" for l g
    using assms by (simp add: NameSelector_entry SelectionHelper_def click_def)
  have "parents (spread_parents (ps ! i) (drop (i + 1) ps)) = Some (drop (i + 1) ps)"
    by (simp add: spread_parents_def)
  moreover have "fst (ancestors (NameSelector l (Some ps) (Some f)) ! i) = item_id (ps ! i)"
    using assms by (simp add: NameSelector_entry)
  moreover have "\<forall>v t lb. SelectionBox ws ds ghost props = Some v \<longrightarrow> selectionHelpers v = Some t \<longrightarrow>
            button_label (helper t) = Some lb \<longrightarrow> parents (data props) = Some ps \<longrightarrow>
            click (button_onClick (snd (ancestors (nameSelector lb) ! i))) =
              [Select (spread_parents (ps ! i) (drop (i + 1) ps))]"
    using c by (auto simp: selectionHelpers_Some(4))
  ultimately show ?thesis
    using c [of l f] by (simp add: NameSelector_length)
qed

theorem breadcrumb_click_witness:
  "(0::nat) < length [sample_section, sample_page] \<and>
   parents (data (sample_props sample_row)) = Some [sample_section, sample_page] \<and>
   (\<exists>v t lb. SelectionBox (sample_workspace [sample_row]) sample_designer ''ghost''
               (sample_props sample_row) = Some v \<and>
      selectionHelpers v = Some t \<and> button_label (helper t) = Some lb \<and>
      click (button_onClick (snd (ancestors (nameSelector lb) ! 0))) =
        [Select (ISelectedItemData ''s1'' ''Section'' None (Some sample_file)
                   (Some (rect 0 40 1200 300)) (Some [sample_page]))])"
proof -
  let ?P = "sample_props sample_row"
  let ?ws = "sample_workspace [sample_row]"
  let ?ps = "[sample_section, sample_page]"
  have i: "(0::nat) < length ?ps" by simp
  have p: "parents (data ?P) = Some ?ps"
    by (simp add: sample_props_def sample_row_def)
  have "has_size (data ?P)" and "showActions ?P"
    by (simp_all add: has_size_def sample_props_def sample_row_def rect_def)
  then obtain v t
    where v: "SelectionBox ?ws sample_designer ''ghost'' ?P = Some v"
      and t: "selectionHelpers v = Some t"
    using toolbar_rendered by blast
  obtain lb where lb: "button_label (helper t) = Some lb"
    using selectionHelpers_Some(4) [OF v t] by simp
  have s: "spread_parents (?ps ! 0) (drop (0 + 1) ?ps) =
             ISelectedItemData ''s1'' ''Section'' None (Some sample_file)
               (Some (rect 0 40 1200 300)) (Some [sample_page])"
    by (simp add: spread_parents_def sample_section_def)
  from breadcrumb_click [OF i, of "Some ''row1''" noop ?ws sample_designer "''ghost''" ?P] v t lb p
  have "click (button_onClick (snd (ancestors (nameSelector lb) ! 0))) =
          [Select (spread_parents (?ps ! 0) (drop (0 + 1) ?ps))]"
    by blast
  with s i p v t lb show ?thesis by metis
qed


subsection \<open>The contents of the toolbar\<close>

text \<open>
  A selected page, with one action element passed in: the toolbar is shown and its tool set
  is empty.
\<close>

theorem page_actions_hidden_counterexample:
  "actions (sample_props sample_page) = [Element ''copy''] \<and>
   map_option toolSet
     (Option.bind
        (SelectionBox (sample_workspace [sample_page]) sample_designer ''ghost''
           (sample_props sample_page))
        selectionHelpers) = Some []"
  by (simp add: SelectionBox_def isPage_def Let_def sample_defs)

text \<open>
  C5 (amended). When the toolbar is shown it renders the name breadcrumb for every item, and
  it renders the drag handle and the action elements exactly when the item's prototype type is
  not page: a page shows neither the drag handle nor the action elements.
\<close>

theorem toolbar_contents:
  assumes "SelectionBox ws ds ghost props = Some v" and "selectionHelpers v = Some t"
  shows "(\<exists>lb. button_label (helper t) = Some lb \<and>
            nameSelector lb =
              NameSelector (Some (or_else (codeId (data props)) (name (data props))))
                (parents (data props)) (Some (\<lambda>item. [Select item]))) \<and>
         (isPage ws (data props) \<longleftrightarrow>
            (\<exists>p. componentPrototypes ws (name (data props)) = Some p \<and> type' p = ''page'')) \<and>
         (button_icon (helper t) \<noteq> None \<longleftrightarrow> \<not> isPage ws (data props)) \<and>
         toolSet t = (if isPage ws (data props) then [] else actions props)"
proof -
  have "isPage ws (data props) \<longleftrightarrow>
          (\<exists>p. componentPrototypes ws (name (data props)) = Some p \<and> type' p = ''page'')"
    by (simp add: isPage_def split: option.splits)
  with selectionHelpers_Some(3,4,5) [OF assms] show ?thesis by simp
qed

theorem toolbar_contents_witness:
  "\<exists>v t. SelectionBox (sample_workspace [sample_page]) sample_designer ''ghost''
            (sample_props sample_page) = Some v \<and>
     selectionHelpers v = Some t \<and> isPage (sample_workspace [sample_page]) sample_page \<and>
     button_label (helper t) \<noteq> None \<and> button_icon (helper t) = None \<and> toolSet t = []"
proof -
  let ?P = "sample_props sample_page"
  let ?ws = "sample_workspace [sample_page]"
  have "has_size (data ?P)" and "showActions ?P"
    by (simp_all add: has_size_def sample_props_def sample_page_def rect_def)
  then obtain v t
    where v: "SelectionBox ?ws sample_designer ''ghost'' ?P = Some v"
      and t: "selectionHelpers v = Some t"
    using toolbar_rendered by blast
  have pg: "isPage ?ws (data ?P)"
    by (simp add: isPage_def sample_defs)
  have d: "data ?P = sample_page" by (simp add: sample_props_def)
  from toolbar_contents [OF v t] pg
  have "button_label (helper t) \<noteq> None \<and> button_icon (helper t) = None \<and> toolSet t = []"
    by auto
  with v t pg d show ?thesis by auto
qed

subsection \<open>The insert-child dropdown\<close>

text \<open>
  The list of insertable children: one entry per declared child name, its label the child
  prototype's title, or the child name itself when the prototype or a non-empty title is
  missing.
\<close>

lemma insertedList_entries:
  assumes "childrenName p = Some cn"
    and "cn = ChildName s \<and> s \<noteq> [] \<and> ns = [s] \<or> cn = ChildNames ns"
  shows "insertedList ws (Some p) =
           map (\<lambda>child.
                  \<lparr>inserted_name = child,
                   inserted_label =
                     (case componentPrototypes ws child of
                        None \<Rightarrow> child
                      | Some q \<Rightarrow> (if title q = None \<or> title q = Some [] then child
                                   else the (title q))),
                   inserted_icon = Option.bind (componentPrototypes ws child) icon,
                   inserted_description = Option.bind (componentPrototypes ws child) help'\<rparr>)
             ns"
  using assms
  by (auto simp: insertedList_def or_else_def split: option.splits)

text \<open>
  Every entry of a rendered dropdown is keyed by its child name and carries no click handler.
\<close>

lemma dropdown_entries:
  assumes "SelectionBox ws ds ghost props = Some v"
    and "selectionHelpers v = Some t"
    and "insertedDropdown t = Some dd"
  shows "map fst (dropdownRender dd) =
           map inserted_name (insertedList ws (componentPrototypes ws (name (data props))))"
    and "map (\<lambda>(k, e). click (item_onClick e)) (dropdownRender dd) =
           map (\<lambda>e. []) (insertedList ws (componentPrototypes ws (name (data props))))"
  using selectionHelpers_Some(6) [OF assms(1,2)] assms(3)
  by (auto simp: Let_def InsertedDropdown_def InsertedItem_def click_def split: if_splits)

text \<open>
  C6. A selected Row whose prototype declares the child name Col: the dropdown lists one
  entry, keyed Col and labelled with the title of Col's prototype. SelectionBox hands
  InsertedDropdown a callback that calls workspace.insertToSelectedNode, and InsertedDropdown
  hands each InsertedItem an onClick that calls it with the entry's name; InsertedItem drops
  that prop, so a click on the entry makes no call.
\<close>

theorem insert_click_dropped:
  "map_option (\<lambda>dd. map (\<lambda>(k, e). (k, item_label e, click (item_onClick e))) (dropdownRender dd))
     (Option.bind
        (Option.bind
           (SelectionBox (sample_workspace [sample_row]) sample_designer ''ghost''
              (sample_props sample_row))
           selectionHelpers)
        insertedDropdown) = Some [(''Col'', ''Column'', [])]"
  by (simp add: SelectionBox_def insertedList_def InsertedDropdown_def InsertedItem_def
      or_else_def click_def Let_def sample_defs)


subsection \<open>The theme of the highlight\<close>

text \<open>
  C7. The flag "is from the currently active file" is the equality of the item's filename
  with the workspace's active view file; the two highlight colours of a rendered box are the
  brand and primary colours when it holds and the gray ones when it does not, and the info
  icon of the toolbar (with the item's filename in its tooltip) is present exactly when it
  does not hold.
\<close>

theorem current_file_theme:
  assumes "SelectionBox ws ds ghost props = Some v"
  shows "isFromCurrentFile ws (data props) = (filename (data props) = activeViewFile ws) \<and>
         (\<exists>s. style v = Some s \<and>
            color_active s =
              (if filename (data props) = activeViewFile ws then ''var(--tango-colors-brand)''
               else ''var(--tango-colors-gray-60)'') \<and>
            color_active_hover s =
              (if filename (data props) = activeViewFile ws then ''var(--tango-colors-primary-50)''
               else ''var(--tango-colors-gray-50)'')) \<and>
         (\<forall>t. selectionHelpers v = Some t \<longrightarrow>
            (\<exists>lb. button_label (helper t) = Some lb \<and>
               otherFileInfo lb =
                 (if filename (data props) = activeViewFile ws then None
                  else Some (filename (data props)))))"
proof -
  from SelectionBox_Some(1) [OF assms] obtain b where b: "bounding (data props) = Some b"
    by (auto simp: has_size_def split: option.splits)
  have "\<exists>s. style v = Some s \<and>
            color_active s =
              (if filename (data props) = activeViewFile ws then ''var(--tango-colors-brand)''
               else ''var(--tango-colors-gray-60)'') \<and>
            color_active_hover s =
              (if filename (data props) = activeViewFile ws then ''var(--tango-colors-primary-50)''
               else ''var(--tango-colors-gray-50)'')"
    using SelectionBox_Some(3) [OF assms] b
    by (simp add: boxStyle_def isFromCurrentFile_def)
  moreover have "\<forall>t. selectionHelpers v = Some t \<longrightarrow>
            (\<exists>lb. button_label (helper t) = Some lb \<and>
               otherFileInfo lb =
                 (if filename (data props) = activeViewFile ws then None
                  else Some (filename (data props))))"
    using selectionHelpers_Some(4) [OF assms]
    by (simp add: isFromCurrentFile_def)
  ultimately show ?thesis
    by (simp add: isFromCurrentFile_def)
qed

theorem current_file_theme_witness:
  "filename (data (sample_props sample_flat)) \<noteq> activeViewFile (sample_workspace [sample_flat]) \<and>
   (\<exists>v s t lb. SelectionBox (sample_workspace [sample_flat]) sample_designer ''ghost''
                 (sample_props sample_flat) = Some v \<and>
      style v = Some s \<and> color_active s = ''var(--tango-colors-gray-60)'' \<and>
      color_active_hover s = ''var(--tango-colors-gray-50)'' \<and>
      selectionHelpers v = Some t \<and> button_label (helper t) = Some lb \<and>
      otherFileInfo lb = Some (Some ''/src/blocks/footer.js''))"
proof -
  let ?P = "sample_props sample_flat"
  let ?ws = "sample_workspace [sample_flat]"
  have f: "filename (data ?P) \<noteq> activeViewFile ?ws"
    and fn: "filename (data ?P) = Some ''/src/blocks/footer.js''"
    by (simp_all add: sample_props_def sample_flat_def sample_workspace_def sample_file_def)
  have "has_size (data ?P)" and "showActions ?P"
    by (simp_all add: has_size_def sample_props_def sample_flat_def rect_def)
  then obtain v t
    where v: "SelectionBox ?ws sample_designer ''ghost'' ?P = Some v"
      and t: "selectionHelpers v = Some t"
    using toolbar_rendered by blast
  from current_file_theme [OF v] f fn t v show ?thesis
    by auto
qed

subsection \<open>Dragging the handle\<close>

text \<open>
  C8. Drag-start on the drag handle allows the move effect, sets the workspace's drag source
  to the selected item's data and sets the drag image to the drag-ghost element; drag-end
  clears the drag source. These are the only calls the two handlers make on the workspace.
\<close>

theorem drag_handle_events:
  assumes "SelectionBox ws ds ghost props = Some v"
    and "selectionHelpers v = Some t"
    and "button_icon (helper t) = Some h"
  shows "onDragStart h = [EffectAllowed ''move'', DragSourceSet (data props), SetDragImage ghost 0 0] \<and>
         filter is_workspace_call (onDragStart h) = [DragSourceSet (data props)] \<and>
         onDragEnd h = [DragSourceClear] \<and>
         filter is_workspace_call (onDragEnd h) = [DragSourceClear]"
  using selectionHelpers_Some(3) [OF assms(1,2)] assms(3)
  by (auto split: if_splits)

theorem drag_handle_events_witness:
  "\<exists>v t h. SelectionBox (sample_workspace [sample_row]) sample_designer ''ghost''
              (sample_props sample_row) = Some v \<and>
     selectionHelpers v = Some t \<and> button_icon (helper t) = Some h \<and>
     onDragStart h = [EffectAllowed ''move'', DragSourceSet sample_row, SetDragImage ''ghost'' 0 0] \<and>
     filter is_workspace_call (onDragStart h) = [DragSourceSet sample_row] \<and>
     onDragEnd h = [DragSourceClear]"
proof -
  let ?P = "sample_props sample_row"
  let ?ws = "sample_workspace [sample_row]"
  have "has_size (data ?P)" and "showActions ?P"
    by (simp_all add: has_size_def sample_props_def sample_row_def rect_def)
  then obtain v t
    where v: "SelectionBox ?ws sample_designer ''ghost'' ?P = Some v"
      and t: "selectionHelpers v = Some t"
    using toolbar_rendered by blast
  have "\<not> isPage ?ws (data ?P)"
    by (simp add: isPage_def sample_defs)
  with selectionHelpers_Some(3) [OF v t] obtain h where h: "button_icon (helper t) = Some h"
    by simp
  have d: "data ?P = sample_row" by (simp add: sample_props_def)
  from drag_handle_events [OF v t h] v t h d show ?thesis
    by auto
qed

subsection \<open>Boxes with one zero dimension\<close>

text \<open>
  C9. An item with bounding geometry of which exactly one of width and height is zero is
  rendered: its box is displayed, and the inline style takes the width and the height, the
  zero one included, as they are.
\<close>

theorem one_zero_dimension_rendered:
  assumes "bounding (data props) = Some b"
    and "(bounding_width b = 0) \<noteq> (bounding_height b = 0)"
  shows "\<exists>v s. SelectionBox ws ds ghost props = Some v \<and> style v = Some s \<and>
           display s = ''block'' \<and>
           css_width s = bounding_width b \<and> css_height s = bounding_height b"
proof -
  from assms have "has_size (data props)"
    by (auto simp: has_size_def)
  then obtain v where v: "SelectionBox ws ds ghost props = Some v"
    using SelectionBox_None_iff [of ws ds ghost props] by (cases "SelectionBox ws ds ghost props") auto
  from SelectionBox_Some(3) [OF v] assms(1) v show ?thesis
    by (simp add: boxStyle_def)
qed

theorem one_zero_dimension_rendered_witness:
  "bounding (data (sample_props sample_flat)) = Some (rect 20 200 0 16) \<and>
   ((bounding_width (rect 20 200 0 16) = 0) \<noteq> (bounding_height (rect 20 200 0 16) = 0)) \<and>
   (\<exists>v s. SelectionBox (sample_workspace [sample_flat]) sample_designer ''ghost''
            (sample_props sample_flat) = Some v \<and>
      style v = Some s \<and> display s = ''block'' \<and> css_width s = 0 \<and> css_height s = 16)"
proof -
  have b: "bounding (data (sample_props sample_flat)) = Some (rect 20 200 0 16)"
    by (simp add: sample_props_def sample_flat_def)
  have z: "(bounding_width (rect 20 200 0 16) = 0) \<noteq> (bounding_height (rect 20 200 0 16) = 0)"
    by (simp add: rect_def)
  from one_zero_dimension_rendered [OF b z, of "sample_workspace [sample_flat]" sample_designer "''ghost''"]
    b z show ?thesis
    by (simp add: rect_def)
qed

subsection \<open>Items without a prototype\<close>

text \<open>
  Two items whose names have no entry in the registry. The first has no bounding geometry:
  selected alone, with the toolbar asked for, nothing of it is rendered. The second has a
  size and is one of several selected items, so the toolbar is not asked for: its box is
  rendered without a toolbar, hence without drag handle and action elements.
\<close>

theorem missing_prototype_counterexample:
  "componentPrototypes (sample_workspace [sample_detached]) (name sample_detached) = None \<and>
   showActions (sample_props sample_detached) \<and>
   SelectionBox (sample_workspace [sample_detached]) sample_designer ''ghost''
     (sample_props sample_detached) = None \<and>
   componentPrototypes (sample_workspace [sample_flat, sample_row]) (name sample_flat) = None \<and>
   map_option selectionHelpers
     (SelectionBox (sample_workspace [sample_flat, sample_row]) sample_designer ''ghost''
        \<lparr>showActions = False, actions = [Element ''copy''], data = sample_flat\<rparr>) = Some None"
  by (simp add: SelectionBox_def Let_def sample_defs)

text \<open>
  C10 (amended). When the item's name has no entry in the prototype registry, the box is
  rendered exactly when the item has a size (bounding geometry present, width and height not
  both zero), as for any other item; the item is not a page and its insertable-child list is
  empty, so when the item has a size and the toolbar is shown, the toolbar has the drag
  handle and the action elements and no insert-child dropdown. For any item, the dropdown of
  a shown toolbar is rendered exactly when the insertable-child list is not empty.
\<close>

theorem missing_prototype:
  "(componentPrototypes ws (name (data props)) = None \<longrightarrow>
      (SelectionBox ws ds ghost props = None \<longleftrightarrow> \<not> has_size (data props)) \<and>
      \<not> isPage ws (data props) \<and>
      insertedList ws (componentPrototypes ws (name (data props))) = [] \<and>
      (has_size (data props) \<longrightarrow> showActions props \<longrightarrow>
         (\<exists>v t h. SelectionBox ws ds ghost props = Some v \<and> selectionHelpers v = Some t \<and>
            button_icon (helper t) = Some h \<and> toolSet t = actions props \<and>
            insertedDropdown t = None))) \<and>
   (\<forall>v t. SelectionBox ws ds ghost props = Some v \<longrightarrow> selectionHelpers v = Some t \<longrightarrow>
      (insertedDropdown t \<noteq> None \<longleftrightarrow>
         insertedList ws (componentPrototypes ws (name (data props))) \<noteq> []))"
proof -
  have gen: "\<forall>v t. SelectionBox ws ds ghost props = Some v \<longrightarrow> selectionHelpers v = Some t \<longrightarrow>
      (insertedDropdown t \<noteq> None \<longleftrightarrow>
         insertedList ws (componentPrototypes ws (name (data props))) \<noteq> [])"
    by (auto simp: selectionHelpers_Some(6) Let_def)
  {
    assume n: "componentPrototypes ws (name (data props)) = None"
    have pg: "\<not> isPage ws (data props)"
      by (simp add: isPage_def n)
    have il: "insertedList ws (componentPrototypes ws (name (data props))) = []"
      by (simp add: insertedList_def n)
    {
      assume "has_size (data props)" and "showActions props"
      then obtain v t where v: "SelectionBox ws ds ghost props = Some v"
        and t: "selectionHelpers v = Some t"
        using toolbar_rendered by blast
      from selectionHelpers_Some(3,5,6) [OF v t] pg il v t
      have "\<exists>v t h. SelectionBox ws ds ghost props = Some v \<and> selectionHelpers v = Some t \<and>
            button_icon (helper t) = Some h \<and> toolSet t = actions props \<and>
            insertedDropdown t = None"
        by (simp add: Let_def)
    }
    with pg il SelectionBox_None_iff [of ws ds ghost props]
    have "(SelectionBox ws ds ghost props = None \<longleftrightarrow> \<not> has_size (data props)) \<and>
      \<not> isPage ws (data props) \<and>
      insertedList ws (componentPrototypes ws (name (data props))) = [] \<and>
      (has_size (data props) \<longrightarrow> showActions props \<longrightarrow>
         (\<exists>v t h. SelectionBox ws ds ghost props = Some v \<and> selectionHelpers v = Some t \<and>
            button_icon (helper t) = Some h \<and> toolSet t = actions props \<and>
            insertedDropdown t = None))"
      by blast
  }
  with gen show ?thesis by blast
qed

theorem missing_prototype_witness:
  "componentPrototypes (sample_workspace [sample_flat]) (name (data (sample_props sample_flat))) = None \<and>
   has_size (data (sample_props sample_flat)) \<and> showActions (sample_props sample_flat) \<and>
   (\<exists>v t h. SelectionBox (sample_workspace [sample_flat]) sample_designer ''ghost''
              (sample_props sample_flat) = Some v \<and>
      selectionHelpers v = Some t \<and> button_icon (helper t) = Some h \<and>
      toolSet t = [Element ''copy''] \<and> insertedDropdown t = None)"
proof -
  let ?P = "sample_props sample_flat"
  let ?ws = "sample_workspace [sample_flat]"
  have n: "componentPrototypes ?ws (name (data ?P)) = None"
    by (simp add: sample_defs)
  have hs: "has_size (data ?P)" and sa: "showActions ?P"
    by (simp_all add: has_size_def sample_props_def sample_flat_def rect_def)
  have a: "actions ?P = [Element ''copy'']" by (simp add: sample_props_def)
  from missing_prototype [of ?ws ?P sample_designer "''ghost''"] n hs sa
  have "\<exists>v t h. SelectionBox ?ws sample_designer ''ghost'' ?P = Some v \<and>
      selectionHelpers v = Some t \<and> button_icon (helper t) = Some h \<and>
      toolSet t = actions ?P \<and> insertedDropdown t = None"
    by blast
  with n hs sa a show ?thesis by simp
qed

end
